theory Spec2Isabelle
  imports Main
begin

section \<open>The container engine, as far as format\_command.py uses it\<close>

text \<open>
  The file \<^verbatim>\<open>airbyte_ci/format/format_command.py\<close> drives an external container engine
  (dagger). The engine's objects are modelled by the operations the file calls on them.

  A directory is a flat listing of files: a path, and the file's content and modification
  time. Sub-directories are not modelled, so the entries of a directory are its file paths.
\<close>

type_synonym path = string

datatype file_data = File (content: string) (mtime: int)

type_synonym directory = "(path \<times> file_data) list"

text \<open>\<^verbatim>\<open>Directory.entries()\<close>: the names listed in the directory.\<close>

definition entries :: "directory \<Rightarrow> path list" where
  "entries d = map fst d"

text \<open>\<^verbatim>\<open>Directory.with_timestamps(t)\<close>: every file gets modification time \<open>t\<close>.\<close>

definition with_timestamps :: "int \<Rightarrow> directory \<Rightarrow> directory" where
  "with_timestamps t d = map (\<lambda>(p, f). (p, File (content f) t)) d"

text \<open>
  \<^verbatim>\<open>Directory.with_directory(".", src)\<close>: the files of \<open>src\<close> are written over the
  directory at its root; a file of the directory survives when \<open>src\<close> has none at its path.
\<close>

definition with_directory :: "directory \<Rightarrow> directory \<Rightarrow> directory" where
  "with_directory d src = filter (\<lambda>(p, f). p \<notin> set (entries src)) d @ src"

text \<open>
  \<^verbatim>\<open>a.diff(b)\<close>: the files of \<open>b\<close> that \<open>a\<close> does not hold identically (same path,
  content and modification time).
\<close>

definition diff :: "directory \<Rightarrow> directory \<Rightarrow> directory" where
  "diff a b = filter (\<lambda>e. e \<notin> set a) b"

text \<open>What a directory holds apart from the modification times: its paths and contents.\<close>

definition contents_of :: "directory \<Rightarrow> (path \<times> string) list" where
  "contents_of d = map (\<lambda>(p, f). (p, content f)) d"

text \<open>
  The two exception kinds the file distinguishes: \<^verbatim>\<open>dagger.ExecError\<close>, which carries the
  captured streams of the failed execution, and every other exception.
\<close>

datatype exn = ExecError (e_stdout: string) (e_stderr: string) | OtherException string

text \<open>
  A container after \<^verbatim>\<open>with_exec\<close>: the directory found at a path, and the captured
  streams (\<^verbatim>\<open>.directory(path)\<close>, \<^verbatim>\<open>.stdout()\<close>, \<^verbatim>\<open>.stderr()\<close>).
\<close>

record ExecutedContainer =
  container_directory :: "path \<Rightarrow> directory"
  container_stdout :: string
  container_stderr :: string

text \<open>
  A container is what \<^verbatim>\<open>with_exec(args, skip_entrypoint=True)\<close> makes of it: the executed
  container, or the exception raised when the execution is awaited.
\<close>

datatype Container = Container (with_exec: "string list \<Rightarrow> exn + ExecutedContainer")

text \<open>
  The client gives access to the host working tree. \<^verbatim>\<open>host().directory(".", include,
  exclude)\<close> keeps the files that match one of the \<open>include\<close> patterns (every file when the
  list is empty) and none of the \<open>exclude\<close> patterns. The client also runs the container
  that lists the files of a directory; \<open>listing_error\<close> gives the captured streams of the
  \<^verbatim>\<open>dagger.ExecError\<close> that this execution raises, if it raises one.
\<close>

record Client =
  host_files :: directory
  glob_match :: "string \<Rightarrow> path \<Rightarrow> bool"
  listing_error :: "directory \<Rightarrow> (string \<times> string) option"

definition host_directory :: "Client \<Rightarrow> string list \<Rightarrow> string list \<Rightarrow> directory" where
  "host_directory c include exclude =
     filter (\<lambda>(p, f). (include = [] \<or> list_ex (\<lambda>pat. glob_match c pat p) include)
                      \<and> \<not> list_ex (\<lambda>pat. glob_match c pat p) exclude)
            (host_files c)"

text \<open>\<^verbatim>\<open>Directory.export(".")\<close>: the directory is written over the host working tree.\<close>

definition export_dir :: "directory \<Rightarrow> directory \<Rightarrow> directory" where
  "export_dir d host = with_directory host d"

section \<open>Declarations the file imports\<close>

text \<open>
  Modelled from the spec: the enumeration \<^verbatim>\<open>Formatter\<close> of
  \<^verbatim>\<open>pipelines.airbyte_ci.format.configuration\<close> (an enumerated identity, one tag per
  formatting tool); a member is given by its \<^verbatim>\<open>.value\<close>.
\<close>

datatype Formatter = Formatter (formatter_value: string)

text \<open>
  The constants of \<^verbatim>\<open>pipelines.airbyte_ci.format.consts\<close> and the helper
  \<^verbatim>\<open>sh_dash_c\<close> of \<^verbatim>\<open>pipelines.helpers.utils\<close> are parameters.
\<close>

record format_consts =
  DEFAULT_FORMAT_IGNORE_LIST :: "string list"
  REPO_MOUNT_PATH :: path
  WARM_UP_INCLUSIONS :: "Formatter \<rightharpoonup> string list"
  sh_dash_c :: "string list \<Rightarrow> string list"

text \<open>
  Modelled from the spec: \<^verbatim>\<open>list_files_in_directory\<close> of
  \<^verbatim>\<open>pipelines.airbyte_ci.format.actions\<close>, which gives the list of the file paths of a
  directory. It is awaited: the listing runs in a container of the client, and a failed
  execution there raises \<^verbatim>\<open>dagger.ExecError\<close>.
\<close>

definition list_files_in_directory :: "Client \<Rightarrow> directory \<Rightarrow> exn + path list" where
  "list_files_in_directory c d =
     (case listing_error c d of
        Some (out, err) \<Rightarrow> Inl (ExecError out err)
      | None \<Rightarrow> Inr (map fst d))"

text \<open>Modelled from the spec: \<^verbatim>\<open>StepStatus\<close> of \<^verbatim>\<open>pipelines.models.steps\<close>.\<close>

datatype StepStatus = SUCCESS | FAILURE

section \<open>FormatCommand\<close>

record FormatCommand =
  name :: string
  formatter :: Formatter
  file_filter :: "string list"
  get_format_container_fn :: "Client \<Rightarrow> directory \<Rightarrow> Container"
  format_commands :: "string list"
  export_formatted_code :: bool
  help_message :: string
  enable_logging :: bool
  exit_on_failure :: bool
  logger :: string

text \<open>
  Modelled from the spec: \<^verbatim>\<open>CommandResult\<close> of \<^verbatim>\<open>pipelines.models.steps\<close>: the
  command, the status, the captured output and error text, the optional exception and the
  optional output artifact.
\<close>

record CommandResult =
  command :: FormatCommand
  status :: StepStatus
  stdout :: string
  stderr :: string
  exc_info :: "exn option"
  output_artifact :: "directory option"

text \<open>
  What the file makes observable besides its return values: the records written to the
  loggers, and the host working tree.
\<close>

datatype log_record =
    Debug string string "path list"
  | CommandResults "CommandResult list" bool

record world =
  host_fs :: directory
  log :: "log_record list"

text \<open>\<^verbatim>\<open>get_help_message\<close>\<close>

definition get_help_message :: "FormatCommand \<Rightarrow> string" where
  "get_help_message self =
     (let message = ''Run '' @ formatter_value (formatter self) @ '' formatter'' in
      if export_formatted_code self then message @ '', will fix any failures.''
      else message @ ''.'')"

text \<open>
  \<^verbatim>\<open>__init__\<close>; the command's name is the formatter's value, and the logger is the one
  named \<^verbatim>\<open>Format <value>\<close>. The source's defaults for the last two arguments are True.
\<close>

definition FormatCommand_init ::
  "Formatter \<Rightarrow> string list \<Rightarrow> (Client \<Rightarrow> directory \<Rightarrow> Container) \<Rightarrow> string list \<Rightarrow> bool
     \<Rightarrow> bool \<Rightarrow> bool \<Rightarrow> FormatCommand" where
  "FormatCommand_init fmt ffilter container_fn commands export enable exit_flag =
     (let self = \<lparr>name = formatter_value fmt, formatter = fmt, file_filter = ffilter,
                  get_format_container_fn = container_fn, format_commands = commands,
                  export_formatted_code = export, help_message = [],
                  enable_logging = enable, exit_on_failure = exit_flag, logger = []\<rparr>;
          self = self\<lparr>help_message := get_help_message self\<rparr>
      in self\<lparr>logger := ''Format '' @ formatter_value (formatter self)\<rparr>)"

text \<open>\<^verbatim>\<open>disable_logging\<close> and \<^verbatim>\<open>dont_exit_on_failure\<close> return the updated command.\<close>

definition disable_logging :: "FormatCommand \<Rightarrow> FormatCommand" where
  "disable_logging self = self\<lparr>enable_logging := False\<rparr>"

definition dont_exit_on_failure :: "FormatCommand \<Rightarrow> FormatCommand" where
  "dont_exit_on_failure self = self\<lparr>exit_on_failure := False\<rparr>"

text \<open>\<^verbatim>\<open>get_dir_to_format\<close>\<close>

definition get_dir_to_format :: "format_consts \<Rightarrow> FormatCommand \<Rightarrow> Client \<Rightarrow> directory" where
  "get_dir_to_format K self dagger_client =
     host_directory dagger_client (file_filter self) (DEFAULT_FORMAT_IGNORE_LIST K)"

text \<open>
  \<^verbatim>\<open>run_format\<close>. Its warm-up block (the walrus test and the merge into
  \<^verbatim>\<open>not_formatted_code\<close>) is the definition \<open>warmup_merged\<close>, so that the directory
  that is diffed has a name. The test on \<^verbatim>\<open>WARM_UP_INCLUSIONS.get(self.formatter)\<close> is
  Python truth: a missing key and an empty list both skip the merge. An exception of the
  execution leaves the function when the diff is awaited.
\<close>

definition warmup_merged :: "format_consts \<Rightarrow> FormatCommand \<Rightarrow> Client \<Rightarrow> directory \<Rightarrow> directory" where
  "warmup_merged K self dagger_client not_formatted_code =
     (case WARM_UP_INCLUSIONS K (formatter self) of
        None \<Rightarrow> not_formatted_code
      | Some warmup_inclusion \<Rightarrow>
          if warmup_inclusion = [] then not_formatted_code
          else with_directory not_formatted_code
                 (host_directory dagger_client warmup_inclusion (DEFAULT_FORMAT_IGNORE_LIST K)))"

definition run_format ::
  "format_consts \<Rightarrow> FormatCommand \<Rightarrow> Client \<Rightarrow> Container \<Rightarrow> string list \<Rightarrow> directory
     \<Rightarrow> exn + (directory \<times> string \<times> string)" where
  "run_format K self dagger_client container commands not_formatted_code =
     (case with_exec container (sh_dash_c K commands) of
        Inl e \<Rightarrow> Inl e
      | Inr format_container \<Rightarrow>
          (let formatted_directory = container_directory format_container (REPO_MOUNT_PATH K);
               not_formatted_code = warmup_merged K self dagger_client not_formatted_code
           in Inr (diff (with_timestamps 0 not_formatted_code)
                        (with_timestamps 0 formatted_directory),
                   container_stdout format_container,
                   container_stderr format_container)))"

text \<open>
  \<^verbatim>\<open>get_format_command_result\<close>: the result, or the exception that leaves the function,
  and the world with the debug record added. The inner case is the body of the
  \<^verbatim>\<open>try\<close>, which ends in a result or in the exception raised by \<^verbatim>\<open>run_format\<close> or by
  the awaited \<^verbatim>\<open>list_files_in_directory\<close>; the outer case is the \<^verbatim>\<open>except\<close> clause,
  which catches \<^verbatim>\<open>dagger.ExecError\<close> only.
\<close>

definition get_format_command_result ::
  "format_consts \<Rightarrow> FormatCommand \<Rightarrow> Client \<Rightarrow> Container \<Rightarrow> directory \<Rightarrow> world
     \<Rightarrow> (exn + CommandResult) \<times> world" where
  "get_format_command_result K self dagger_client container not_formatted_code w =
     (case (case run_format K self dagger_client container (format_commands self)
                  not_formatted_code of
              Inl e \<Rightarrow> Inl e
            | Inr (dir_with_modified_files, out, err) \<Rightarrow>
                if entries dir_with_modified_files \<noteq> [] then
                  (case list_files_in_directory dagger_client dir_with_modified_files of
                     Inl e \<Rightarrow> Inl e
                   | Inr modified_files \<Rightarrow>
                       Inr (\<lparr>command = self, status = FAILURE, stdout = out, stderr = err,
                             exc_info = None,
                             output_artifact = Some dir_with_modified_files\<rparr>,
                            w\<lparr>log := log w @
                               [Debug (logger self) ''Modified files: '' modified_files]\<rparr>))
                else
                  Inr (\<lparr>command = self, status = SUCCESS, stdout = out, stderr = err,
                        exc_info = None, output_artifact = None\<rparr>, w)) of
        Inr (command_result, w') \<Rightarrow> (Inr command_result, w')
      | Inl (ExecError out err) \<Rightarrow>
          (Inr \<lparr>command = self, status = FAILURE, stdout = out, stderr = err,
                exc_info = Some (ExecError out err), output_artifact = None\<rparr>, w)
      | Inl e \<Rightarrow> (Inl e, w))"

text \<open>
  \<^verbatim>\<open>invoke\<close>. The click context carries the global quiet flag; the pipeline context gives
  the client, which sees the host working tree as it is. The call ends by returning the
  result, by \<^verbatim>\<open>sys.exit\<close> with a code, or by an exception.
\<close>

record Context =
  quiet :: bool

record ClickPipelineContext =
  client_glob_match :: "string \<Rightarrow> path \<Rightarrow> bool"
  client_listing_error :: "directory \<Rightarrow> (string \<times> string) option"

definition get_dagger_client :: "ClickPipelineContext \<Rightarrow> world \<Rightarrow> Client" where
  "get_dagger_client pc w = \<lparr>host_files = host_fs w, glob_match = client_glob_match pc,
                               listing_error = client_listing_error pc\<rparr>"

datatype outcome = Returned CommandResult | Exited int | Raised exn

definition invoke ::
  "format_consts \<Rightarrow> FormatCommand \<Rightarrow> Context \<Rightarrow> ClickPipelineContext \<Rightarrow> world \<Rightarrow> outcome \<times> world" where
  "invoke K self ctx click_pipeline_context w =
     (let dagger_client = get_dagger_client click_pipeline_context w;
          dir_to_format = get_dir_to_format K self dagger_client;
          container = get_format_container_fn self dagger_client dir_to_format
      in case get_format_command_result K self dagger_client container dir_to_format w of
           (Inl e, w) \<Rightarrow> (Raised e, w)
         | (Inr command_result, w) \<Rightarrow>
             (let w = (case output_artifact command_result of
                         Some formatted_code_dir \<Rightarrow>
                           if export_formatted_code self
                           then w\<lparr>host_fs := export_dir formatted_code_dir (host_fs w)\<rparr>
                           else w
                       | None \<Rightarrow> w);
                  w = (if enable_logging self
                       then w\<lparr>log := log w @ [CommandResults [command_result] (quiet ctx)]\<rparr>
                       else w)
              in if status command_result = FAILURE \<and> exit_on_failure self
                 then (Exited 1, w)
                 else (Returned command_result, w)))"

section \<open>A concrete setting\<close>

text \<open>
  One host working tree, one table of constants and five container builders: a formatter
  that leaves the code as it is (new timestamps only), one that rewrites a file, one whose
  container also holds the warm-up file, one whose execution fails, and one for which the
  engine raises another exception. There are two clients: one that lists the files of a
  directory, and one whose listing container fails.
\<close>

definition ex_consts :: format_consts where
  "ex_consts = \<lparr>DEFAULT_FORMAT_IGNORE_LIST = [''.git''], REPO_MOUNT_PATH = ''/src'',
                 WARM_UP_INCLUSIONS = [Formatter ''python'' \<mapsto> [''pyproject.toml'']],
                 sh_dash_c = (\<lambda>lines. [''sh'', ''-c''] @ lines)\<rparr>"

definition ex_host :: directory where
  "ex_host = [(''a.txt'', File ''x = 1'' 5), (''pyproject.toml'', File ''[tool]'' 7),
              (''.git'', File ''ref'' 1)]"

definition ex_world :: world where
  "ex_world = \<lparr>host_fs = ex_host, log = []\<rparr>"

definition ex_context :: ClickPipelineContext where
  "ex_context = \<lparr>client_glob_match = (\<lambda>pat p. pat = p), client_listing_error = (\<lambda>d. None)\<rparr>"

definition ex_context_failing :: ClickPipelineContext where
  "ex_context_failing = \<lparr>client_glob_match = (\<lambda>pat p. pat = p),
                          client_listing_error = (\<lambda>d. Some ([], ''find: cannot list''))\<rparr>"

definition ex_client_failing :: Client where
  "ex_client_failing = get_dagger_client ex_context_failing ex_world"

definition ex_client :: Client where
  "ex_client = get_dagger_client ex_context ex_world"

definition ex_ctx :: Context where
  "ex_ctx = \<lparr>quiet = False\<rparr>"

definition keep_fn :: "Client \<Rightarrow> directory \<Rightarrow> Container" where
  "keep_fn c d = Container (\<lambda>args. Inr \<lparr>container_directory = (\<lambda>p. with_timestamps 99 d),
                                          container_stdout = ''ok'', container_stderr = []\<rparr>)"

definition rewrite_fn :: "Client \<Rightarrow> directory \<Rightarrow> Container" where
  "rewrite_fn c d = Container (\<lambda>args. Inr \<lparr>container_directory = (\<lambda>p. [(''a.txt'', File ''x=1'' 99)]),
                                             container_stdout = ''reformatted a.txt'',
                                             container_stderr = []\<rparr>)"

definition warm_fn :: "Client \<Rightarrow> directory \<Rightarrow> Container" where
  "warm_fn c d = Container (\<lambda>args. Inr \<lparr>container_directory =
       (\<lambda>p. [(''a.txt'', File ''x = 1'' 99), (''pyproject.toml'', File ''[tool]'' 99)]),
     container_stdout = ''ok'', container_stderr = []\<rparr>)"

definition crash_fn :: "Client \<Rightarrow> directory \<Rightarrow> Container" where
  "crash_fn c d = Container (\<lambda>args. Inl (ExecError ''out'' ''boom''))"

definition other_fn :: "Client \<Rightarrow> directory \<Rightarrow> Container" where
  "other_fn c d = Container (\<lambda>args. Inl (OtherException ''QueryError''))"

definition ex_command :: "string \<Rightarrow> (Client \<Rightarrow> directory \<Rightarrow> Container) \<Rightarrow> bool \<Rightarrow> bool \<Rightarrow> FormatCommand" where
  "ex_command tool container_fn export exit_flag =
     FormatCommand_init (Formatter tool) [''a.txt''] container_fn [''fmt .''] export True exit_flag"

definition ex_dir :: directory where
  "ex_dir = [(''a.txt'', File ''x = 1'' 5)]"

lemmas ex_defs =
  ex_consts_def ex_host_def ex_world_def ex_context_def ex_client_def ex_ctx_def keep_fn_def
  ex_context_failing_def ex_client_failing_def
  rewrite_fn_def crash_fn_def other_fn_def ex_command_def ex_dir_def FormatCommand_init_def
  get_help_message_def get_dagger_client_def get_dir_to_format_def host_directory_def
  warmup_merged_def with_directory_def with_timestamps_def diff_def entries_def
  list_files_in_directory_def export_dir_def

section \<open>Helper facts\<close>

lemma entries_Nil_iff: "entries d = [] \<longleftrightarrow> d = []"
  by (simp add: entries_def)

lemma run_format_Inr:
  "with_exec container (sh_dash_c K commands) = Inr fc \<Longrightarrow>
   run_format K self c container commands nfc =
     Inr (diff (with_timestamps 0 (warmup_merged K self c nfc))
               (with_timestamps 0 (container_directory fc (REPO_MOUNT_PATH K))),
          container_stdout fc, container_stderr fc)"
  by (simp add: run_format_def)

lemma run_format_Inl:
  "with_exec container (sh_dash_c K commands) = Inl e \<Longrightarrow>
   run_format K self c container commands nfc = Inl e"
  by (simp add: run_format_def)

lemma list_files_cases:
  "list_files_in_directory c d = Inr (entries d)
   \<or> (\<exists>out err. list_files_in_directory c d = Inl (ExecError out err))"
  by (simp add: list_files_in_directory_def entries_def split: option.splits)


lemma host_fs_get_format_command_result:
  "host_fs (snd (get_format_command_result K self c container nfc w)) = host_fs w"
  by (simp add: get_format_command_result_def split: sum.splits prod.splits exn.splits)

lemma empty_diff_result:
  assumes "with_exec container (sh_dash_c K (format_commands self)) = Inr fc"
    and "diff (with_timestamps 0 (warmup_merged K self c nfc))
              (with_timestamps 0 (container_directory fc (REPO_MOUNT_PATH K))) = []"
  shows "fst (get_format_command_result K self c container nfc w) =
           Inr \<lparr>command = self, status = SUCCESS, stdout = container_stdout fc,
                stderr = container_stderr fc, exc_info = None, output_artifact = None\<rparr>"
  using assms by (simp add: get_format_command_result_def run_format_Inr entries_Nil_iff)

lemma nonempty_diff_result:
  assumes "with_exec container (sh_dash_c K (format_commands self)) = Inr fc"
    and "diff (with_timestamps 0 (warmup_merged K self c nfc))
              (with_timestamps 0 (container_directory fc (REPO_MOUNT_PATH K))) \<noteq> []"
    and "list_files_in_directory c
           (diff (with_timestamps 0 (warmup_merged K self c nfc))
                 (with_timestamps 0 (container_directory fc (REPO_MOUNT_PATH K)))) = Inr files"
  shows "fst (get_format_command_result K self c container nfc w) =
           Inr \<lparr>command = self, status = FAILURE, stdout = container_stdout fc,
                stderr = container_stderr fc, exc_info = None,
                output_artifact = Some (diff (with_timestamps 0 (warmup_merged K self c nfc))
                  (with_timestamps 0 (container_directory fc (REPO_MOUNT_PATH K))))\<rparr>"
  using assms by (simp add: get_format_command_result_def run_format_Inr entries_Nil_iff)

lemma nonempty_diff_listing_error:
  assumes "with_exec container (sh_dash_c K (format_commands self)) = Inr fc"
    and "diff (with_timestamps 0 (warmup_merged K self c nfc))
              (with_timestamps 0 (container_directory fc (REPO_MOUNT_PATH K))) \<noteq> []"
    and "list_files_in_directory c
           (diff (with_timestamps 0 (warmup_merged K self c nfc))
                 (with_timestamps 0 (container_directory fc (REPO_MOUNT_PATH K))))
         = Inl (ExecError out err)"
  shows "get_format_command_result K self c container nfc w =
           (Inr \<lparr>command = self, status = FAILURE, stdout = out, stderr = err,
                 exc_info = Some (ExecError out err), output_artifact = None\<rparr>, w)"
  using assms by (simp add: get_format_command_result_def run_format_Inr entries_Nil_iff)


lemma invoke_outcome:
  assumes "c = get_dagger_client pc w"
    and "d = get_dir_to_format K self c"
    and "ct = get_format_container_fn self c d"
  shows "fst (invoke K self ctx pc w) =
           (case fst (get_format_command_result K self c ct d w) of
              Inl e \<Rightarrow> Raised e
            | Inr r \<Rightarrow> if status r = FAILURE \<and> exit_on_failure self then Exited 1
                       else Returned r)"
  using assms by (auto simp: invoke_def Let_def split: prod.splits sum.splits)

lemma invoke_host_fs:
  assumes "c = get_dagger_client pc w"
    and "d = get_dir_to_format K self c"
    and "ct = get_format_container_fn self c d"
  shows "host_fs (snd (invoke K self ctx pc w)) =
           (case fst (get_format_command_result K self c ct d w) of
              Inl e \<Rightarrow> host_fs w
            | Inr r \<Rightarrow> (case output_artifact r of
                          None \<Rightarrow> host_fs w
                        | Some a \<Rightarrow> if export_formatted_code self
                                    then export_dir a (host_fs w) else host_fs w))"
proof -
  obtain res w' where g: "get_format_command_result K self c ct d w = (res, w')"
    by (cases "get_format_command_result K self c ct d w")
  have "host_fs w' = host_fs w"
    using host_fs_get_format_command_result [of K self c ct d w] g by simp
  with g assms show ?thesis
    by (simp add: invoke_def Let_def split: sum.splits option.splits)
qed

lemma ex_dir_to_format:
  "get_dir_to_format ex_consts (ex_command tool fn e x) (get_dagger_client ex_context ex_world)
     = ex_dir"
  by (simp add: ex_defs)

lemma ex_container:
  "get_format_container_fn (ex_command tool fn e x) c d = fn c d"
  by (simp add: ex_command_def FormatCommand_init_def)

lemma ex_rewrite_result:
  "fst (get_format_command_result ex_consts (ex_command ''python'' rewrite_fn e x)
          (get_dagger_client ex_context ex_world)
          (rewrite_fn (get_dagger_client ex_context ex_world) ex_dir) ex_dir ex_world)
     = Inr \<lparr>command = ex_command ''python'' rewrite_fn e x, status = FAILURE,
            stdout = ''reformatted a.txt'', stderr = [], exc_info = None,
            output_artifact = Some [(''a.txt'', File ''x=1'' 0)]\<rparr>"
  by (simp add: get_format_command_result_def run_format_def ex_defs)

lemma with_timestamps_contents:
  "with_timestamps t d = map (\<lambda>(p, s). (p, File s t)) (contents_of d)"
  by (simp add: with_timestamps_def contents_of_def case_prod_unfold)

lemma set_with_timestamps:
  "set (with_timestamps t a) = (\<lambda>(p, s). (p, File s t)) ` set (contents_of a)"
  by (simp add: with_timestamps_contents)

lemma set_contents_of: "set (contents_of d) = (\<lambda>(p, f). (p, content f)) ` set d"
  by (simp add: contents_of_def)

lemma set_contents_of_diff:
  "set (contents_of (diff (with_timestamps t a) (with_timestamps t b)))
     = set (contents_of b) - set (contents_of a)"
proof -
  let ?g = "\<lambda>(p, s). (p, File s t)"
  let ?h = "\<lambda>(p, f). (p, content f)"
  have hg: "?h (?g x) = x" for x :: "path \<times> string"
    by (cases x) simp
  have inj: "inj ?g"
    by (rule inj_on_inverseI [where g = ?h]) (simp add: case_prod_unfold)
  have "set (diff (with_timestamps t a) (with_timestamps t b))
          = ?g ` set (contents_of b) - ?g ` set (contents_of a)"
    unfolding diff_def set_filter set_with_timestamps by blast
  also have "\<dots> = ?g ` (set (contents_of b) - set (contents_of a))"
    by (rule image_set_diff [OF inj, symmetric])
  finally have "set (contents_of (diff (with_timestamps t a) (with_timestamps t b)))
          = ?h ` ?g ` (set (contents_of b) - set (contents_of a))"
    by (simp only: set_contents_of)
  also have "\<dots> = set (contents_of b) - set (contents_of a)"
    unfolding image_image hg by simp
  finally show ?thesis .
qed

section \<open>The result of a format run\<close>

text \<open>
  C1: when the format commands execute without a container-execution error and the diff
  between the timestamp-normalized pre-format directory and post-format directory is empty,
  \<^verbatim>\<open>get_format_command_result\<close> returns a result with status SUCCESS, no output artifact,
  and the container's captured stdout and stderr (and logs nothing).
\<close>

theorem empty_diff_success:
  assumes "with_exec container (sh_dash_c K (format_commands self)) = Inr fc"
    and "diff (with_timestamps 0 (warmup_merged K self c nfc))
              (with_timestamps 0 (container_directory fc (REPO_MOUNT_PATH K))) = []"
  shows "get_format_command_result K self c container nfc w =
           (Inr \<lparr>command = self, status = SUCCESS, stdout = container_stdout fc,
                 stderr = container_stderr fc, exc_info = None, output_artifact = None\<rparr>, w)"
  using assms by (simp add: get_format_command_result_def run_format_Inr entries_Nil_iff)

theorem empty_diff_success_witness:
  "status (projr (fst (get_format_command_result ex_consts (ex_command ''python'' keep_fn False True)
      ex_client (keep_fn ex_client ex_dir) ex_dir ex_world))) = SUCCESS
   \<and> output_artifact (projr (fst (get_format_command_result ex_consts
      (ex_command ''python'' keep_fn False True) ex_client (keep_fn ex_client ex_dir) ex_dir ex_world)))
      = None
   \<and> stdout (projr (fst (get_format_command_result ex_consts
      (ex_command ''python'' keep_fn False True) ex_client (keep_fn ex_client ex_dir) ex_dir ex_world)))
      = ''ok''"
proof -
  let ?fc = "\<lparr>container_directory = (\<lambda>p. with_timestamps 99 ex_dir),
              container_stdout = ''ok'', container_stderr = []\<rparr>"
  have h1: "with_exec (keep_fn ex_client ex_dir)
              (sh_dash_c ex_consts (format_commands (ex_command ''python'' keep_fn False True)))
            = Inr ?fc"
    by (simp add: keep_fn_def)
  have h2: "diff (with_timestamps 0 (warmup_merged ex_consts
                    (ex_command ''python'' keep_fn False True) ex_client ex_dir))
                 (with_timestamps 0 (container_directory ?fc (REPO_MOUNT_PATH ex_consts))) = []"
    by (simp add: ex_defs)
  show ?thesis
    using empty_diff_success [OF h1 h2, of ex_world] by simp
qed







text \<open>
  C4: when running the format commands raises a container-execution error,
  \<^verbatim>\<open>get_format_command_result\<close> catches it and returns a result with status FAILURE, no
  output artifact, and the stdout and stderr captured in the exception; any other exception
  leaves the function.
\<close>

theorem exec_error_caught:
  "(with_exec container (sh_dash_c K (format_commands self)) = Inl (ExecError out err) \<longrightarrow>
      get_format_command_result K self c container nfc w =
        (Inr \<lparr>command = self, status = FAILURE, stdout = out, stderr = err,
              exc_info = Some (ExecError out err), output_artifact = None\<rparr>, w))
   \<and> (with_exec container (sh_dash_c K (format_commands self)) = Inl (OtherException m) \<longrightarrow>
      get_format_command_result K self c container nfc w = (Inl (OtherException m), w))"
  by (simp add: get_format_command_result_def run_format_Inl)

theorem exec_error_caught_witness:
  "stderr (projr (fst (get_format_command_result ex_consts (ex_command ''js'' crash_fn False True)
      ex_client (crash_fn ex_client ex_dir) ex_dir ex_world))) = ''boom''
   \<and> stdout (projr (fst (get_format_command_result ex_consts (ex_command ''js'' crash_fn False True)
      ex_client (crash_fn ex_client ex_dir) ex_dir ex_world))) = ''out''
   \<and> status (projr (fst (get_format_command_result ex_consts (ex_command ''js'' crash_fn False True)
      ex_client (crash_fn ex_client ex_dir) ex_dir ex_world))) = FAILURE
   \<and> fst (get_format_command_result ex_consts (ex_command ''js'' other_fn False True)
      ex_client (other_fn ex_client ex_dir) ex_dir ex_world) = Inl (OtherException ''QueryError'')"
  using exec_error_caught [of "crash_fn ex_client ex_dir" ex_consts
          "ex_command ''js'' crash_fn False True" "''out''" "''boom''" ex_client ex_dir ex_world]
        exec_error_caught [of "other_fn ex_client ex_dir" ex_consts
          "ex_command ''js'' other_fn False True" _ _ ex_client ex_dir ex_world "''QueryError''"]
  by (simp add: crash_fn_def other_fn_def)

section \<open>Running the formatter\<close>

text \<open>
  C8: \<^verbatim>\<open>run_format\<close> sets the timestamps of both the pre-format directory and the
  post-format directory to 0 before it computes the diff. The diff then holds exactly the
  paths and contents of the post-format directory that the pre-format directory does not
  hold, and it is the same for any two directories with these paths and contents, whatever
  their timestamps.
\<close>

theorem run_format_timestamps_normalized:
  assumes "with_exec container (sh_dash_c K commands) = Inr fc"
    and "pre = warmup_merged K self c nfc"
    and "post = container_directory fc (REPO_MOUNT_PATH K)"
  shows "run_format K self c container commands nfc =
           Inr (diff (with_timestamps 0 pre) (with_timestamps 0 post),
                container_stdout fc, container_stderr fc)
         \<and> set (contents_of (diff (with_timestamps 0 pre) (with_timestamps 0 post)))
             = set (contents_of post) - set (contents_of pre)
         \<and> (\<forall>pre' post'. contents_of pre' = contents_of pre \<and> contents_of post' = contents_of post
               \<longrightarrow> diff (with_timestamps 0 pre') (with_timestamps 0 post')
                    = diff (with_timestamps 0 pre) (with_timestamps 0 post))"
proof (intro conjI allI impI)
  show "run_format K self c container commands nfc =
          Inr (diff (with_timestamps 0 pre) (with_timestamps 0 post),
               container_stdout fc, container_stderr fc)"
    using assms by (simp add: run_format_Inr)
next
  show "set (contents_of (diff (with_timestamps 0 pre) (with_timestamps 0 post)))
          = set (contents_of post) - set (contents_of pre)"
    by (rule set_contents_of_diff)
next
  fix pre' post'
  assume "contents_of pre' = contents_of pre \<and> contents_of post' = contents_of post"
  then have "with_timestamps 0 pre' = with_timestamps 0 pre"
    and "with_timestamps 0 post' = with_timestamps 0 post"
    by (simp_all add: with_timestamps_contents)
  then show "diff (with_timestamps 0 pre') (with_timestamps 0 post')
               = diff (with_timestamps 0 pre) (with_timestamps 0 post)"
    by simp
qed

theorem run_format_timestamps_normalized_witness:
  "run_format ex_consts (ex_command ''js'' keep_fn False True) ex_client
      (keep_fn ex_client ex_dir) [''fmt .''] ex_dir = Inr ([], ''ok'', [])
   \<and> diff ex_dir (with_timestamps 99 ex_dir) \<noteq> []"
proof -
  let ?fc = "\<lparr>container_directory = (\<lambda>p. with_timestamps 99 ex_dir),
              container_stdout = ''ok'', container_stderr = []\<rparr>"
  have h1: "with_exec (keep_fn ex_client ex_dir) (sh_dash_c ex_consts [''fmt .'']) = Inr ?fc"
    by (simp add: keep_fn_def)
  have h2: "ex_dir = warmup_merged ex_consts (ex_command ''js'' keep_fn False True) ex_client
              ex_dir"
    by (simp add: ex_defs)
  have h3: "with_timestamps 99 ex_dir = container_directory ?fc (REPO_MOUNT_PATH ex_consts)"
    by simp
  have d: "diff (with_timestamps 0 ex_dir) (with_timestamps 0 (with_timestamps 99 ex_dir)) = []"
    "diff ex_dir (with_timestamps 99 ex_dir) \<noteq> []"
    by (simp_all add: ex_dir_def with_timestamps_def diff_def)
  show ?thesis
    using run_format_timestamps_normalized [OF h1 h2 h3, THEN conjunct1] d by simp
qed

text \<open>
  C9: when \<^verbatim>\<open>WARM_UP_INCLUSIONS\<close> gives the formatter a (non-empty) warm-up inclusion
  list, \<^verbatim>\<open>run_format\<close> diffs the pre-format snapshot with the warm-up directory merged
  into it, the warm-up directory being the host files that match the inclusion list and not
  the shared ignore list; nothing is merged into the post-format directory. When the
  formatter has no warm-up list (no key, or an empty list), the pre-format snapshot is diffed
  as it is.
\<close>

theorem run_format_warmup_merge:
  assumes "with_exec container (sh_dash_c K commands) = Inr fc"
    and "post = container_directory fc (REPO_MOUNT_PATH K)"
  shows "(\<forall>incl. WARM_UP_INCLUSIONS K (formatter self) = Some incl \<and> incl \<noteq> [] \<longrightarrow>
            run_format K self c container commands nfc =
              Inr (diff (with_timestamps 0
                           (with_directory nfc
                              (host_directory c incl (DEFAULT_FORMAT_IGNORE_LIST K))))
                        (with_timestamps 0 post),
                   container_stdout fc, container_stderr fc))
         \<and> (WARM_UP_INCLUSIONS K (formatter self) = None
              \<or> WARM_UP_INCLUSIONS K (formatter self) = Some [] \<longrightarrow>
            run_format K self c container commands nfc =
              Inr (diff (with_timestamps 0 nfc) (with_timestamps 0 post),
                   container_stdout fc, container_stderr fc))
         \<and> (\<forall>incl. incl \<noteq> [] \<longrightarrow>
              (\<forall>p \<in> set (entries (host_directory c incl (DEFAULT_FORMAT_IGNORE_LIST K))).
                 (\<exists>pat \<in> set incl. glob_match c pat p)
                 \<and> \<not> (\<exists>pat \<in> set (DEFAULT_FORMAT_IGNORE_LIST K). glob_match c pat p)))"
  using assms
  by (auto simp: run_format_Inr warmup_merged_def host_directory_def entries_def list_ex_iff)

theorem run_format_warmup_merge_witness:
  "run_format ex_consts (ex_command ''python'' warm_fn False True) ex_client
      (warm_fn ex_client ex_dir) [''fmt .''] ex_dir = Inr ([], ''ok'', [])
   \<and> run_format ex_consts (ex_command ''js'' warm_fn False True) ex_client
      (warm_fn ex_client ex_dir) [''fmt .''] ex_dir
       = Inr ([(''pyproject.toml'', File ''[tool]'' 0)], ''ok'', [])"
proof -
  let ?post = "[(''a.txt'', File ''x = 1'' 99), (''pyproject.toml'', File ''[tool]'' 99)]"
  let ?fc = "\<lparr>container_directory = (\<lambda>p. ?post),
              container_stdout = ''ok'', container_stderr = []\<rparr>"
  have h1: "with_exec (warm_fn ex_client ex_dir) (sh_dash_c ex_consts [''fmt .'']) = Inr ?fc"
    by (simp add: warm_fn_def)
  have h2: "?post = container_directory ?fc (REPO_MOUNT_PATH ex_consts)"
    by simp
  have w: "WARM_UP_INCLUSIONS ex_consts (formatter (ex_command ''python'' warm_fn False True))
             = Some [''pyproject.toml'']"
    "WARM_UP_INCLUSIONS ex_consts (formatter (ex_command ''js'' warm_fn False True)) = None"
    by (simp_all add: ex_consts_def ex_command_def FormatCommand_init_def)
  have d: "diff (with_timestamps 0 (with_directory ex_dir
                   (host_directory ex_client [''pyproject.toml'']
                      (DEFAULT_FORMAT_IGNORE_LIST ex_consts))))
                (with_timestamps 0 ?post) = []"
    "diff (with_timestamps 0 ex_dir) (with_timestamps 0 ?post)
       = [(''pyproject.toml'', File ''[tool]'' 0)]"
    by (simp_all add: ex_defs)
  show ?thesis
    using run_format_warmup_merge [where self = "ex_command ''python'' warm_fn False True"
            and c = ex_client and nfc = ex_dir, OF h1 h2, THEN conjunct1]
          run_format_warmup_merge [where self = "ex_command ''js'' warm_fn False True"
            and c = ex_client and nfc = ex_dir, OF h1 h2, THEN conjunct2, THEN conjunct1]
          w d
    by simp
qed

section \<open>Invoking the command\<close>

text \<open>
  C5: \<^verbatim>\<open>invoke\<close> terminates the process with exit code 1 exactly when
  \<^verbatim>\<open>exit_on_failure\<close> is enabled and the status of the command result is FAILURE; in
  every other combination of the flag and the status it returns the result, and it never
  exits with another code.
\<close>

theorem invoke_exits_iff:
  assumes "c = get_dagger_client pc w"
    and "d = get_dir_to_format K self c"
    and "ct = get_format_container_fn self c d"
    and "fst (get_format_command_result K self c ct d w) = Inr r"
  shows "(fst (invoke K self ctx pc w) = Exited 1) = (exit_on_failure self \<and> status r = FAILURE)
         \<and> (\<forall>code. fst (invoke K self ctx pc w) = Exited code \<longrightarrow> code = 1)
         \<and> (\<not> (exit_on_failure self \<and> status r = FAILURE)
              \<longrightarrow> fst (invoke K self ctx pc w) = Returned r)"
  using invoke_outcome [OF assms(1-3), of ctx] assms(4) by auto

theorem invoke_exits_iff_witness:
  "fst (invoke ex_consts (ex_command ''js'' crash_fn False True) ex_ctx ex_context ex_world) = Exited 1
   \<and> exit_on_failure (ex_command ''js'' crash_fn False True)
   \<and> fst (invoke ex_consts (ex_command ''js'' crash_fn False False) ex_ctx ex_context ex_world)
       = Returned \<lparr>command = ex_command ''js'' crash_fn False False, status = FAILURE,
           stdout = ''out'', stderr = ''boom'', exc_info = Some (ExecError ''out'' ''boom''),
           output_artifact = None\<rparr>"
proof -
  have h: "\<And>x. fst (get_format_command_result ex_consts (ex_command ''js'' crash_fn False x)
             (get_dagger_client ex_context ex_world)
             (get_format_container_fn (ex_command ''js'' crash_fn False x)
                (get_dagger_client ex_context ex_world)
                (get_dir_to_format ex_consts (ex_command ''js'' crash_fn False x)
                   (get_dagger_client ex_context ex_world)))
             (get_dir_to_format ex_consts (ex_command ''js'' crash_fn False x)
                (get_dagger_client ex_context ex_world)) ex_world)
           = Inr \<lparr>command = ex_command ''js'' crash_fn False x, status = FAILURE,
               stdout = ''out'', stderr = ''boom'', exc_info = Some (ExecError ''out'' ''boom''),
               output_artifact = None\<rparr>"
    by (simp add: get_format_command_result_def run_format_def crash_fn_def ex_command_def
        FormatCommand_init_def)
  show ?thesis
    using invoke_exits_iff [where ctx = ex_ctx, OF refl refl refl h [of True]]
          invoke_exits_iff [where ctx = ex_ctx, OF refl refl refl h [of False]]
    by (simp add: ex_command_def FormatCommand_init_def)
qed

text \<open>
  C6: after \<^verbatim>\<open>invoke\<close> the host working tree is the old one with the output artifact
  written over it at its root when the export flag is set and the command result has an
  output artifact, and it is the old one otherwise; with the export flag disabled it is
  unchanged whatever the result.
\<close>

theorem invoke_export_frame:
  assumes "c = get_dagger_client pc w"
    and "d = get_dir_to_format K self c"
    and "ct = get_format_container_fn self c d"
  shows "(\<forall>r a. export_formatted_code self
                \<and> fst (get_format_command_result K self c ct d w) = Inr r
                \<and> output_artifact r = Some a
              \<longrightarrow> host_fs (snd (invoke K self ctx pc w)) = export_dir a (host_fs w))
         \<and> (\<not> (export_formatted_code self
                \<and> (\<exists>r a. fst (get_format_command_result K self c ct d w) = Inr r
                         \<and> output_artifact r = Some a))
              \<longrightarrow> host_fs (snd (invoke K self ctx pc w)) = host_fs w)
         \<and> (\<not> export_formatted_code self \<longrightarrow> host_fs (snd (invoke K self ctx pc w)) = host_fs w)"
  using invoke_host_fs [OF assms, of ctx]
  by (auto split: sum.splits option.splits)

theorem invoke_export_frame_witness:
  "host_fs (snd (invoke ex_consts (ex_command ''python'' rewrite_fn True True) ex_ctx ex_context
      ex_world))
     = [(''pyproject.toml'', File ''[tool]'' 7), (''.git'', File ''ref'' 1),
        (''a.txt'', File ''x=1'' 0)]
   \<and> host_fs (snd (invoke ex_consts (ex_command ''python'' rewrite_fn False True) ex_ctx ex_context
      ex_world)) = host_fs ex_world"
proof -
  have h: "fst (get_format_command_result ex_consts (ex_command ''python'' rewrite_fn True True)
             (get_dagger_client ex_context ex_world)
             (get_format_container_fn (ex_command ''python'' rewrite_fn True True)
                (get_dagger_client ex_context ex_world)
                (get_dir_to_format ex_consts (ex_command ''python'' rewrite_fn True True)
                   (get_dagger_client ex_context ex_world)))
             (get_dir_to_format ex_consts (ex_command ''python'' rewrite_fn True True)
                (get_dagger_client ex_context ex_world)) ex_world)
           = Inr \<lparr>command = ex_command ''python'' rewrite_fn True True, status = FAILURE,
               stdout = ''reformatted a.txt'', stderr = [], exc_info = None,
               output_artifact = Some [(''a.txt'', File ''x=1'' 0)]\<rparr>"
    by (simp add: get_format_command_result_def run_format_def ex_defs)
  have e: "export_formatted_code (ex_command ''python'' rewrite_fn True True)"
    "\<not> export_formatted_code (ex_command ''python'' rewrite_fn False True)"
    by (simp_all add: ex_command_def FormatCommand_init_def)
  have x: "export_dir [(''a.txt'', File ''x=1'' 0)] (host_fs ex_world)
           = [(''pyproject.toml'', File ''[tool]'' 7), (''.git'', File ''ref'' 1),
              (''a.txt'', File ''x=1'' 0)]"
    by (simp add: ex_defs)
  show ?thesis
    using invoke_export_frame [where K = ex_consts and pc = ex_context and w = ex_world
            and ctx = ex_ctx and self = "ex_command ''python'' rewrite_fn True True",
            OF refl refl refl]
          invoke_export_frame [where K = ex_consts and pc = ex_context and w = ex_world
            and ctx = ex_ctx and self = "ex_command ''python'' rewrite_fn False True",
            OF refl refl refl]
          h e x
    by simp
qed

text \<open>
  C7, as the code has it: unless an exception other than a container-execution error is
  raised, a command result is constructed (a container-execution error is converted into
  one), and \<^verbatim>\<open>invoke\<close> returns it to its caller unless \<^verbatim>\<open>exit_on_failure\<close> is enabled
  and the status is FAILURE, in which case the process exits with code 1 instead.
\<close>

theorem invoke_returns_unless_exit:
  assumes "c = get_dagger_client pc w"
    and "d = get_dir_to_format K self c"
    and "ct = get_format_container_fn self c d"
    and "\<forall>m. with_exec ct (sh_dash_c K (format_commands self)) \<noteq> Inl (OtherException m)"
  shows "\<exists>r. fst (get_format_command_result K self c ct d w) = Inr r
             \<and> fst (invoke K self ctx pc w) =
                 (if status r = FAILURE \<and> exit_on_failure self then Exited 1 else Returned r)"
proof -
  have "\<exists>r. fst (get_format_command_result K self c ct d w) = Inr r"
  proof (cases "with_exec ct (sh_dash_c K (format_commands self))")
    case (Inl e)
    with assms(4) obtain out err where "e = ExecError out err"
      by (cases e) auto
    with Inl show ?thesis
      by (simp add: get_format_command_result_def run_format_Inl)
  next
    case (Inr fc)
    let ?D = "diff (with_timestamps 0 (warmup_merged K self c d))
                   (with_timestamps 0 (container_directory fc (REPO_MOUNT_PATH K)))"
    show ?thesis
    proof (cases "?D = []")
      case True
      from empty_diff_result [OF Inr True] show ?thesis
        by blast
    next
      case False
      from list_files_cases [of c ?D] show ?thesis
      proof
        assume "list_files_in_directory c ?D = Inr (entries ?D)"
        from nonempty_diff_result [OF Inr False this] show ?thesis
          by blast
      next
        assume "\<exists>out err. list_files_in_directory c ?D = Inl (ExecError out err)"
        then obtain out err where "list_files_in_directory c ?D = Inl (ExecError out err)"
          by blast
        from nonempty_diff_listing_error [OF Inr False this] show ?thesis
          by simp
      qed
    qed
  qed
  then obtain r where "fst (get_format_command_result K self c ct d w) = Inr r" ..
  with invoke_outcome [OF assms(1-3), of ctx] show ?thesis
    by simp
qed

theorem invoke_returns_unless_exit_witness:
  "(\<forall>m. with_exec (crash_fn ex_client ex_dir)
          (sh_dash_c ex_consts (format_commands (ex_command ''js'' crash_fn False False)))
        \<noteq> Inl (OtherException m))
   \<and> fst (invoke ex_consts (ex_command ''js'' crash_fn False False) ex_ctx ex_context ex_world)
       = Returned \<lparr>command = ex_command ''js'' crash_fn False False, status = FAILURE,
           stdout = ''out'', stderr = ''boom'', exc_info = Some (ExecError ''out'' ''boom''),
           output_artifact = None\<rparr>"
proof -
  have h: "\<forall>m. with_exec (get_format_container_fn (ex_command ''js'' crash_fn False False)
                (get_dagger_client ex_context ex_world)
                (get_dir_to_format ex_consts (ex_command ''js'' crash_fn False False)
                   (get_dagger_client ex_context ex_world)))
             (sh_dash_c ex_consts (format_commands (ex_command ''js'' crash_fn False False)))
           \<noteq> Inl (OtherException m)"
    by (simp add: crash_fn_def ex_command_def FormatCommand_init_def)
  show ?thesis
    using invoke_returns_unless_exit [where w = ex_world and ctx = ex_ctx, OF refl refl refl h]
    by (auto simp: get_format_command_result_def run_format_def crash_fn_def ex_command_def
        FormatCommand_init_def)
qed

text \<open>
  C7 as stated fails: with the default \<^verbatim>\<open>exit_on_failure\<close> and a formatter that rewrites
  a file, \<^verbatim>\<open>invoke\<close> ends in \<^verbatim>\<open>sys.exit(1)\<close> and the caller receives no result.
\<close>

theorem invoke_always_returns_counterexample:
  "fst (invoke ex_consts (ex_command ''python'' rewrite_fn False True) ex_ctx ex_context ex_world)
     = Exited 1
   \<and> fst (invoke ex_consts (ex_command ''python'' rewrite_fn False True) ex_ctx ex_context ex_world)
     \<noteq> Returned (projr (fst (get_format_command_result ex_consts
           (ex_command ''python'' rewrite_fn False True) ex_client
           (rewrite_fn ex_client ex_dir) ex_dir ex_world)))"
proof -
  have "exit_on_failure (ex_command ''python'' rewrite_fn False True)"
    by (simp add: ex_command_def FormatCommand_init_def)
  then have "fst (invoke ex_consts (ex_command ''python'' rewrite_fn False True) ex_ctx ex_context
      ex_world) = Exited 1"
    using invoke_outcome [where K = ex_consts and pc = ex_context and w = ex_world
            and ctx = ex_ctx and self = "ex_command ''python'' rewrite_fn False True",
            OF refl refl refl]
    by (simp add: ex_dir_to_format ex_container ex_rewrite_result)
  then show ?thesis
    by simp
qed

section \<open>The configuration setters\<close>

text \<open>
  C10: \<^verbatim>\<open>disable_logging\<close> sets only \<^verbatim>\<open>enable_logging\<close>, to False, and
  \<^verbatim>\<open>dont_exit_on_failure\<close> sets only \<^verbatim>\<open>exit_on_failure\<close>, to False; each returns the
  command with every other field as it was.
\<close>

theorem setters_frame:
  "disable_logging self = self\<lparr>enable_logging := False\<rparr>
   \<and> enable_logging (disable_logging self) = False
   \<and> name (disable_logging self) = name self
   \<and> formatter (disable_logging self) = formatter self
   \<and> file_filter (disable_logging self) = file_filter self
   \<and> get_format_container_fn (disable_logging self) = get_format_container_fn self
   \<and> format_commands (disable_logging self) = format_commands self
   \<and> export_formatted_code (disable_logging self) = export_formatted_code self
   \<and> help_message (disable_logging self) = help_message self
   \<and> exit_on_failure (disable_logging self) = exit_on_failure self
   \<and> logger (disable_logging self) = logger self
   \<and> dont_exit_on_failure self = self\<lparr>exit_on_failure := False\<rparr>
   \<and> exit_on_failure (dont_exit_on_failure self) = False
   \<and> name (dont_exit_on_failure self) = name self
   \<and> formatter (dont_exit_on_failure self) = formatter self
   \<and> file_filter (dont_exit_on_failure self) = file_filter self
   \<and> get_format_container_fn (dont_exit_on_failure self) = get_format_container_fn self
   \<and> format_commands (dont_exit_on_failure self) = format_commands self
   \<and> export_formatted_code (dont_exit_on_failure self) = export_formatted_code self
   \<and> help_message (dont_exit_on_failure self) = help_message self
   \<and> enable_logging (dont_exit_on_failure self) = enable_logging self
   \<and> logger (dont_exit_on_failure self) = logger self"
  by (simp add: disable_logging_def dont_exit_on_failure_def)

end
